theory Spec2Isabelle
  imports Main "HOL-Library.Word"
begin

unbundle bit_operations_syntax

section \<open>The notebooks as programs\<close>

text \<open>
  The repository consists of Jupyter notebooks. Their code cells fall into five kinds:
  the cell that creates the environment file, the cell that calls \<open>load_dotenv\<close>, the
  cell that constructs the \<open>DataWarehouse\<close> object, the cells of the form
  \<^verbatim>\<open>with dw: <calls of methods of dw>\<close>, and cells that only display, reshape or plot
  data already fetched. This theory embeds the first four kinds as functions on an
  explicit world state. The packages \<open>xdmod_data\<close> and \<open>dotenv\<close> are installed by
  \<open>pip\<close> and are not part of the repository: what they do is a parameter of the model
  (the record \<open>ext\<close> below), and the calls the notebook makes to them are recorded in a
  trace.
\<close>

subsection \<open>Exceptions\<close>

text \<open>
  The built-in exceptions the cells can meet, and \<open>External\<close> for whatever an
  installed package raises (tagged by its class name).
\<close>

datatype exc =
    FileNotFoundError
  | PermissionError
  | IsADirectoryError
  | NameError
  | External string

subsection \<open>Files\<close>

text \<open>
  A file system maps a path to a regular file (contents and permission bits) or to a
  directory. Permission bits are the usual \<open>mode_t\<close> bits; the octal constants of the
  source are written in decimal: \<open>0o600 = 384\<close>, \<open>0o666 = 438\<close>, \<open>0o400 = 256\<close>,
  \<open>0o200 = 128\<close>. The process is taken to own the files it opens and not to be the
  superuser, and the directory holding the path to exist and be writable (the path is in
  the user's home directory).
\<close>

type_synonym mode = "32 word"

datatype node = File string mode | Directory mode

type_synonym filesystem = "string \<rightharpoonup> node"

definition S_IRUSR :: mode where
  "S_IRUSR = 256"

definition S_IWUSR :: mode where
  "S_IWUSR = 128"

text \<open>\<^verbatim>\<open>open(path)\<close>: opening for reading; \<open>None\<close> is success.\<close>

definition open_r :: "filesystem \<Rightarrow> string \<Rightarrow> exc option" where
  "open_r f p =
     (case f p of
        None \<Rightarrow> Some FileNotFoundError
      | Some (Directory m) \<Rightarrow> Some IsADirectoryError
      | Some (File c m) \<Rightarrow> if m AND S_IRUSR = 0 then Some PermissionError else None)"

text \<open>
  \<^verbatim>\<open>open(path, 'w')\<close>: an absent file is created empty with mode \<open>0o666 & ~umask\<close>, an
  existing one is truncated and keeps its mode.
\<close>

definition open_w :: "mode \<Rightarrow> filesystem \<Rightarrow> string \<Rightarrow> exc + filesystem" where
  "open_w um f p =
     (case f p of
        None \<Rightarrow> Inr (f(p \<mapsto> File [] (438 AND NOT um)))
      | Some (Directory m) \<Rightarrow> Inl IsADirectoryError
      | Some (File c m) \<Rightarrow>
          if m AND S_IWUSR = 0 then Inl PermissionError else Inr (f(p \<mapsto> File [] m)))"

text \<open>\<^verbatim>\<open>file.write(s)\<close> on the handle just opened: the text goes to the end of the file.\<close>

definition write_str :: "filesystem \<Rightarrow> string \<Rightarrow> string \<Rightarrow> filesystem" where
  "write_str f p s =
     (case f p of
        Some (File c m) \<Rightarrow> f(p \<mapsto> File (c @ s) m)
      | _ \<Rightarrow> f)"

text \<open>\<^verbatim>\<open>path.chmod(m)\<close>.\<close>

definition chmod :: "filesystem \<Rightarrow> string \<Rightarrow> mode \<Rightarrow> exc + filesystem" where
  "chmod f p m =
     (case f p of
        None \<Rightarrow> Inl FileNotFoundError
      | Some (Directory m') \<Rightarrow> Inr (f(p \<mapsto> Directory m))
      | Some (File c m') \<Rightarrow> Inr (f(p \<mapsto> File c m)))"

subsection \<open>Queries and the trace of calls to the installed packages\<close>

text \<open>
  A call \<^verbatim>\<open>dw.method(positional..., keyword=value...)\<close>. Argument values are strings,
  booleans, tuples of strings, or dictionaries, as in the notebooks.
\<close>

datatype arg =
    Str string
  | Flag bool
  | Tuple "string list"
  | Dict "(string \<times> arg) list"

datatype query = Query string "arg list" "(string \<times> arg) list"

datatype event =
    EvLoadDotenv string bool
  | EvNew string
  | EvEnter "exc option"
  | EvCall query
  | EvExit "exc option"

subsection \<open>The installed packages\<close>

text \<open>
  \<open>'d\<close> is the state of a \<open>DataWarehouse\<close> object. Every method may read the process
  environment, changes the object in place and may raise: it returns the outcome together
  with the object's new state.
  \<^item> \<open>load_dotenv path override files environ\<close> gives the printed boolean and the new
    environment, or raises;
  \<^item> \<open>DataWarehouse environ url\<close> is the constructor;
  \<^item> \<open>enter\<close> is \<open>__enter__\<close> (\<open>None\<close>: it returned);
  \<^item> \<open>exit\<close> is \<open>__exit__\<close>, given the exception that left the body if any; it
    returns the truth value of its result, or raises;
  \<^item> \<open>call\<close> is any other method; the table it returns is not part of the state.

  Apart from \<open>load_dotenv\<close>, which hands back the new environment, the packages are
  taken to leave the files and the environment of the process alone.
\<close>

record 'd ext =
  load_dotenv :: "string \<Rightarrow> bool \<Rightarrow> filesystem \<Rightarrow> (string \<rightharpoonup> string)
                    \<Rightarrow> exc + (bool \<times> (string \<rightharpoonup> string))"
  DataWarehouse :: "(string \<rightharpoonup> string) \<Rightarrow> string \<Rightarrow> exc + 'd"
  enter :: "(string \<rightharpoonup> string) \<Rightarrow> 'd \<Rightarrow> exc option \<times> 'd"
  exit :: "(string \<rightharpoonup> string) \<Rightarrow> exc option \<Rightarrow> 'd \<Rightarrow> (exc + bool) \<times> 'd"
  call :: "(string \<rightharpoonup> string) \<Rightarrow> query \<Rightarrow> 'd \<Rightarrow> exc option \<times> 'd"

subsection \<open>The world a cell runs in\<close>

text \<open>
  \<open>xdmod_data_env_path\<close> is the value that \<^verbatim>\<open>Path(expanduser('~/xdmod-data.env'))\<close> has
  on this machine, and \<open>env_path_bound\<close> tells whether the variable
  \<open>xdmod_data_env_path\<close> has been assigned it yet: the first line of the creation cell
  does that. \<open>dw\<close> is the variable \<open>dw\<close>, unbound until the constructor cell has run.
\<close>

record 'd world =
  fs :: filesystem
  umask :: mode
  environ :: "string \<rightharpoonup> string"
  xdmod_data_env_path :: string
  env_path_bound :: bool
  dw :: "'d option"
  trace :: "event list"

subsection \<open>The cell that creates the environment file\<close>

text \<open>
  The \<open>try\<close> statement of the cell; the assignment to \<open>xdmod_data_env_path\<close> that
  precedes it is in \<open>run_cell\<close> below.
  \<^verbatim>\<open>
  try:
      with open(xdmod_data_env_path):
          pass
  except FileNotFoundError:
      with open(xdmod_data_env_path, 'w') as xdmod_data_env_file:
          xdmod_data_env_file.write('XDMOD_API_TOKEN=')
      xdmod_data_env_path.chmod(0o600)
  \<close>
  The result is the exception that leaves the cell, if any, and the world after it.
\<close>

definition create_env_file :: "'d world \<Rightarrow> exc option \<times> 'd world" where
  "create_env_file w =
     (let p = xdmod_data_env_path w in
      case open_r (fs w) p of
        None \<Rightarrow> (None, w)
      | Some e \<Rightarrow>
          if e = FileNotFoundError then
            (case open_w (umask w) (fs w) p of
               Inl e1 \<Rightarrow> (Some e1, w)
             | Inr f1 \<Rightarrow>
                 (let f2 = write_str f1 p ''XDMOD_API_TOKEN='' in
                  case chmod f2 p 384 of
                    Inl e2 \<Rightarrow> (Some e2, w\<lparr>fs := f2\<rparr>)
                  | Inr f3 \<Rightarrow> (None, w\<lparr>fs := f3\<rparr>)))
          else (Some e, w))"

subsection \<open>The cell that loads the environment file\<close>

text \<open>
  \<^verbatim>\<open>load_dotenv(xdmod_data_env_path, override=True)\<close>. Evaluating the argument raises
  \<open>NameError\<close> when the creation cell has not run in this kernel; \<open>load_dotenv\<close> is
  not called then.
\<close>

definition load_env :: "'d ext \<Rightarrow> 'd world \<Rightarrow> exc option \<times> 'd world" where
  "load_env x w =
     (if \<not> env_path_bound w then (Some NameError, w)
      else
        let p = xdmod_data_env_path w;
            t = trace w @ [EvLoadDotenv p True] in
        case load_dotenv x p True (fs w) (environ w) of
          Inl e \<Rightarrow> (Some e, w\<lparr>trace := t\<rparr>)
        | Inr (b, env) \<Rightarrow> (None, w\<lparr>environ := env, trace := t\<rparr>))"

subsection \<open>The cell that constructs the warehouse object\<close>

text \<open>\<^verbatim>\<open>dw = DataWarehouse('https://xdmod.access-ci.org')\<close>\<close>

definition init_dw :: "'d ext \<Rightarrow> string \<Rightarrow> 'd world \<Rightarrow> exc option \<times> 'd world" where
  "init_dw x url w =
     (let t = trace w @ [EvNew url] in
      case DataWarehouse x (environ w) url of
        Inl e \<Rightarrow> (Some e, w\<lparr>trace := t\<rparr>)
      | Inr d \<Rightarrow> (None, w\<lparr>dw := Some d, trace := t\<rparr>))"

subsection \<open>The runtime context\<close>

text \<open>
  The body of every \<open>with dw:\<close> block of the notebooks is a sequence of zero or more
  method calls on \<open>dw\<close>. The first call that raises ends the body. The result is the
  exception, the object's state and the calls made.
\<close>

fun suite :: "'d ext \<Rightarrow> (string \<rightharpoonup> string) \<Rightarrow> query list \<Rightarrow> 'd
                \<Rightarrow> exc option \<times> 'd \<times> event list" where
  "suite x env [] d = (None, d, [])"
| "suite x env (q # qs) d =
     (case call x env q d of
        (Some e, d1) \<Rightarrow> (Some e, d1, [EvCall q])
      | (None, d1) \<Rightarrow>
          (case suite x env qs d1 of (r, d2, evs) \<Rightarrow> (r, d2, EvCall q # evs)))"

text \<open>
  \<^verbatim>\<open>with dw: <body>\<close>, as the language defines the statement:
  \<^verbatim>\<open>
  value = type(dw).__enter__(dw)
  hit_except = False
  try:
      <body>
  except:
      hit_except = True
      if not type(dw).__exit__(dw, *sys.exc_info()):
          raise
  finally:
      if not hit_except:
          type(dw).__exit__(dw, None, None, None)
  \<close>
\<close>

definition with_dw :: "'d ext \<Rightarrow> query list \<Rightarrow> 'd world \<Rightarrow> exc option \<times> 'd world" where
  "with_dw x qs w =
     (case dw w of
        None \<Rightarrow> (Some NameError, w)
      | Some d \<Rightarrow>
          (case enter x (environ w) d of
             (Some e, d1) \<Rightarrow>
               (Some e, w\<lparr>dw := Some d1, trace := trace w @ [EvEnter (Some e)]\<rparr>)
           | (None, d1) \<Rightarrow>
               (case suite x (environ w) qs d1 of
                  (Some e, d2, evs) \<Rightarrow>
                    (case exit x (environ w) (Some e) d2 of
                       (Inl e', d3) \<Rightarrow>
                         (Some e', w\<lparr>dw := Some d3,
                            trace := trace w @ [EvEnter None] @ evs @ [EvExit (Some e)]\<rparr>)
                     | (Inr suppress, d3) \<Rightarrow>
                         (if suppress then None else Some e, w\<lparr>dw := Some d3,
                            trace := trace w @ [EvEnter None] @ evs @ [EvExit (Some e)]\<rparr>))
                | (None, d2, evs) \<Rightarrow>
                    (case exit x (environ w) None d2 of
                       (Inl e', d3) \<Rightarrow>
                         (Some e', w\<lparr>dw := Some d3,
                            trace := trace w @ [EvEnter None] @ evs @ [EvExit None]\<rparr>)
                     | (Inr b, d3) \<Rightarrow>
                         (None, w\<lparr>dw := Some d3,
                            trace := trace w @ [EvEnter None] @ evs @ [EvExit None]\<rparr>)))))"

subsection \<open>Running cells\<close>

datatype cell =
    CreateEnvFile
  | LoadDotenv
  | InitDW string
  | WithDW "query list"
  | Local

text \<open>
  The creation cell first assigns \<^verbatim>\<open>xdmod_data_env_path = Path(expanduser('~/xdmod-data.env'))\<close>
  and then runs its \<open>try\<close> statement.
\<close>

fun run_cell :: "'d ext \<Rightarrow> cell \<Rightarrow> 'd world \<Rightarrow> exc option \<times> 'd world" where
  "run_cell x CreateEnvFile w = create_env_file (w\<lparr>env_path_bound := True\<rparr>)"
| "run_cell x LoadDotenv w = load_env x w"
| "run_cell x (InitDW url) w = init_dw x url w"
| "run_cell x (WithDW qs) w = with_dw x qs w"
| "run_cell x Local w = (None, w)"

text \<open>
  Cells run one after the other in the same kernel. An exception ends its cell and is
  displayed; the kernel, and so the world, lives on for the next cell that is run.
\<close>

fun run_cells :: "'d ext \<Rightarrow> cell list \<Rightarrow> 'd world \<Rightarrow> 'd world" where
  "run_cells x [] w = w"
| "run_cells x (c # cs) w = run_cells x cs (snd (run_cell x c w))"

subsection \<open>The cells of the raw-data notebook, in order\<close>

text \<open>
  The code cells of the notebook on \<open>get_raw_data()\<close>, from top to bottom. Cells that
  install packages, set up display helpers, or display, reshape and plot \<open>data\<close> are
  \<open>Local\<close>. Statements that follow a \<open>with\<close> block in its cell (\<open>display(...)\<close>) do not
  touch the world and are left out.
\<close>

definition xdmod_host :: string where
  "xdmod_host = ''https://xdmod.access-ci.org''"

definition three_days :: "string \<times> arg" where
  "three_days = (''duration'', Tuple [''2023-05-01'', ''2023-05-03''])"

definition supremm :: "string \<times> arg" where
  "supremm = (''realm'', Str ''SUPREMM'')"

definition raw_data_notebook :: "cell list" where
  "raw_data_notebook =
     [Local, Local, Local, Local,
      CreateEnvFile,
      LoadDotenv,
      InitDW xdmod_host,
      WithDW [Query ''get_raw_data'' []
                [three_days, supremm, (''show_progress'', Flag True)]],
      Local, Local, Local, Local, Local, Local, Local, Local,
      WithDW [Query ''get_raw_data'' []
                [three_days, supremm,
                 (''filters'', Dict [(''Resource'', Str ''Bridges 2 RM'')]),
                 (''show_progress'', Flag True)]],
      Local, Local,
      WithDW [Query ''get_raw_data'' []
                [three_days, supremm,
                 (''fields'', Tuple [''Wall Time'', ''Total memory used'']),
                 (''filters'', Dict [(''Resource'', Str ''Bridges 2 RM''),
                                     (''Field of Science'', Str ''Chemical Engineering'')]),
                 (''show_progress'', Flag True)]],
      Local, Local,
      WithDW [],
      WithDW [Query ''get_raw_data'' []
                [(''duration'', Tuple [''2023-05-01'', ''2023-05-01'']), supremm]],
      WithDW [Query ''get_durations'' [] []],
      WithDW [Query ''describe_raw_realms'' [] []],
      WithDW [Query ''describe_raw_fields'' [Str ''SUPREMM''] []],
      WithDW [Query ''describe_dimensions'' [Str ''SUPREMM''] []],
      WithDW [Query ''get_filter_values'' [Str ''SUPREMM'', Str ''Resource''] []],
      WithDW [Query ''get_raw_data'' []
                [(''duration'', Tuple [''2021-05-01'', ''2021-05-01'']), supremm,
                 (''filters'', Dict [(''Field of Science'', Str ''Materials Engineering''),
                                     (''Resource'', Tuple [''Bridges 2 RM'', ''STAMPEDE2 TACC''])]),
                 (''show_progress'', Flag True)]]]"

subsection \<open>The scope discipline, as the specification words it\<close>

text \<open>
  The specification gives a session two states and lets it go from open to closed once
  per use, on leaving the scope. Read on the trace: a scope opens when \<open>__enter__\<close>
  returns, methods are called only while it is open, and it closes at \<open>__exit__\<close>.
  \<open>scope_step\<close> is \<open>None\<close> on any other transition.
\<close>

datatype status = Closed | Open

fun scope_step :: "status \<Rightarrow> event \<Rightarrow> status option" where
  "scope_step Closed (EvEnter None) = Some Open"
| "scope_step Closed (EvEnter (Some e)) = Some Closed"
| "scope_step Open (EvEnter r) = None"
| "scope_step Open (EvCall q) = Some Open"
| "scope_step Closed (EvCall q) = None"
| "scope_step Open (EvExit r) = Some Closed"
| "scope_step Closed (EvExit r) = None"
| "scope_step Closed (EvNew url) = Some Closed"
| "scope_step Open (EvNew url) = None"
| "scope_step s (EvLoadDotenv p b) = Some s"

fun scope_run :: "status \<Rightarrow> event list \<Rightarrow> status option" where
  "scope_run s [] = Some s"
| "scope_run s (ev # evs) =
     (case scope_step s ev of None \<Rightarrow> None | Some s' \<Rightarrow> scope_run s' evs)"

fun is_exit :: "event \<Rightarrow> bool" where
  "is_exit (EvExit r) = True"
| "is_exit ev = False"

fun is_entered :: "event \<Rightarrow> bool" where
  "is_entered (EvEnter None) = True"
| "is_entered ev = False"

definition closes :: "event list \<Rightarrow> nat" where
  "closes t = length (filter is_exit t)"

definition opens :: "event list \<Rightarrow> nat" where
  "opens t = length (filter is_entered t)"

subsection \<open>A stand-in for the installed packages\<close>

text \<open>
  To run the cells on concrete inputs the examples below use a small stand-in: the
  object's state counts the calls of \<open>__exit__\<close>, \<open>get_raw_data\<close> always raises, the
  constructor wants the token in the environment, and \<open>load_dotenv\<close> sets the token to
  whatever follows the 16 characters \<open>XDMOD_API_TOKEN=\<close> in the file.
\<close>

definition stub :: "nat ext" where
  "stub =
     \<lparr>load_dotenv = (\<lambda>p override f env.
         case f p of
           Some (File c m) \<Rightarrow> Inr (True, env(''XDMOD_API_TOKEN'' \<mapsto> drop 16 c))
         | _ \<Rightarrow> Inr (False, env)),
      DataWarehouse = (\<lambda>env url.
         case env ''XDMOD_API_TOKEN'' of
           None \<Rightarrow> Inl (External ''KeyError'')
         | Some t \<Rightarrow> Inr 0),
      enter = (\<lambda>env d. (None, d)),
      exit = (\<lambda>env r d. (Inr False, Suc d)),
      call = (\<lambda>env q d.
         case q of Query m args kwargs \<Rightarrow>
           if m = ''get_raw_data'' then (Some (External ''RuntimeError''), d)
           else (None, d))\<rparr>"


definition fresh :: "nat world" where
  "fresh =
     \<lparr>fs = Map.empty, umask = 18, environ = Map.empty,
      xdmod_data_env_path = ''/home/user/xdmod-data.env'', env_path_bound = False,
      dw = None, trace = []\<rparr>"

section \<open>Properties\<close>

subsection \<open>Traces\<close>

lemma suite_calls:
  "suite x env qs d = (r, d2, evs) \<Longrightarrow>
     scope_run Open (evs @ t) = scope_run Open t
     \<and> filter is_exit evs = [] \<and> filter is_entered evs = []"
  by (induction qs arbitrary: d r d2 evs) (auto split: prod.splits option.splits)

lemma scope_run_append:
  "scope_run s (t @ u) =
     (case scope_run s t of None \<Rightarrow> None | Some s' \<Rightarrow> scope_run s' u)"
  by (induction t arbitrary: s) (auto split: option.splits)

lemma scope_step_balanced:
  "scope_step s ev = Some s' \<Longrightarrow>
     (if s = Open then 1 else 0) + (if is_entered ev then 1 else 0)
       = (if is_exit ev then 1 else 0) + (if s' = Open then (1::nat) else 0)"
  by (cases "(s, ev)" rule: scope_step.cases) auto

lemma scope_balanced:
  "scope_run s t = Some s' \<Longrightarrow>
     (if s = Open then 1 else 0) + opens t = closes t + (if s' = Open then 1 else 0)"
  unfolding opens_def closes_def
proof (induction t arbitrary: s)
  case Nil
  then show ?case by simp
next
  case (Cons ev t)
  from Cons.prems obtain s1
    where st: "scope_step s ev = Some s1" and r: "scope_run s1 t = Some s'"
    by (auto split: option.splits)
  from scope_step_balanced [OF st] Cons.IH [OF r] show ?case
    by (auto split: if_splits)
qed

subsection \<open>The environment file\<close>

lemma create_absent:
  "fs w (xdmod_data_env_path w) = None \<Longrightarrow>
   create_env_file w =
     (None, w\<lparr>fs := (fs w)(xdmod_data_env_path w \<mapsto> File ''XDMOD_API_TOKEN='' 384)\<rparr>)"
  by (simp add: create_env_file_def open_r_def open_w_def write_str_def chmod_def)

lemma create_present:
  "fs w (xdmod_data_env_path w) = Some n \<Longrightarrow> snd (create_env_file w) = w"
  by (cases n) (simp_all add: create_env_file_def open_r_def)

lemma create_trace: "trace (snd (create_env_file w)) = trace w"
  by (auto simp: create_env_file_def Let_def split: option.splits sum.splits)

subsection \<open>Sequences of cells\<close>

lemma run_cells_append: "run_cells x (cs @ ds) w = run_cells x ds (run_cells x cs w)"
  by (induction cs arbitrary: w) simp_all

lemma run_cells_locals: "run_cells x (replicate n Local) w = w"
  by (induction n) simp_all

lemma run_cell_grows: "\<exists>evs. trace (snd (run_cell x c w)) = trace w @ evs"
  by (cases c)
    (auto simp: create_trace load_env_def init_dw_def with_dw_def Let_def
          split: option.splits sum.splits prod.splits)

lemma run_cells_grows: "\<exists>evs. trace (run_cells x cs w) = trace w @ evs"
proof (induction cs arbitrary: w)
  case Nil
  then show ?case by simp
next
  case (Cons c cs)
  obtain e1 where 1: "trace (snd (run_cell x c w)) = trace w @ e1"
    using run_cell_grows by blast
  obtain e2 where 2: "trace (run_cells x cs (snd (run_cell x c w)))
                        = trace (snd (run_cell x c w)) @ e2"
    using Cons.IH by blast
  show ?case using 1 2 by simp
qed

lemma with_dw_scoped:
  assumes "scope_run Closed (trace w) = Some Closed"
  shows "scope_run Closed (trace (snd (with_dw x qs w))) = Some Closed"
proof (cases "dw w")
  case None
  then show ?thesis using assms by (simp add: with_dw_def)
next
  case (Some d)
  show ?thesis
  proof (cases "enter x (environ w) d")
    case (Pair r d1)
    show ?thesis
    proof (cases r)
      case (Some e)
      then show ?thesis using assms \<open>dw w = Some d\<close> Pair
        by (simp add: with_dw_def scope_run_append)
    next
      case None
      obtain r2 d2 evs where s: "suite x (environ w) qs d1 = (r2, d2, evs)"
        by (cases "suite x (environ w) qs d1") auto
      from suite_calls [OF s] have c: "scope_run Open (evs @ t) = scope_run Open t" for t
        by blast
      show ?thesis using assms \<open>dw w = Some d\<close> Pair None s c
        by (auto simp: with_dw_def scope_run_append
                 split: option.splits sum.splits prod.splits)
    qed
  qed
qed

lemma run_cell_scoped:
  assumes "scope_run Closed (trace w) = Some Closed"
  shows "scope_run Closed (trace (snd (run_cell x c w))) = Some Closed"
proof (cases c)
  case (WithDW qs)
  then show ?thesis using with_dw_scoped [OF assms] by simp
qed (use assms in \<open>auto simp: create_trace load_env_def init_dw_def Let_def
                         scope_run_append split: sum.splits\<close>)

lemma run_cells_scoped:
  "scope_run Closed (trace w) = Some Closed \<Longrightarrow>
   scope_run Closed (trace (run_cells x cs w)) = Some Closed"
  by (induction cs arbitrary: w) (simp_all add: run_cell_scoped)

lemma scope_run_prefix:
  "scope_run s (t @ u) = Some s' \<Longrightarrow> \<exists>s''. scope_run s t = Some s''"
  by (simp add: scope_run_append split: option.splits)

lemma scope_run_take:
  assumes "scope_run s t = Some s'"
  shows "scope_run s (take n t) = Some Closed \<or> scope_run s (take n t) = Some Open"
proof -
  have "scope_run s (take n t @ drop n t) = Some s'"
    using assms by simp
  then obtain s'' where "scope_run s (take n t) = Some s''"
    using scope_run_prefix by blast
  then show ?thesis
    by (cases s'') simp_all
qed

lemma with_dw_entered:
  assumes "dw w = Some d"
      and "enter x (environ w) d = (None, d1)"
      and "suite x (environ w) qs d1 = (r, d2, evs)"
  shows "snd (with_dw x qs w)
           = w\<lparr>dw := Some (snd (exit x (environ w) r d2)),
                trace := trace w @ EvEnter None # evs @ [EvExit r]\<rparr>"
  using assms by (auto simp: with_dw_def split: prod.splits sum.splits option.splits)

subsection \<open>Claims\<close>




text \<open>
  C4. The scope of a session is \<open>Closed\<close> or \<open>Open\<close>. Take any cells run before, in
  any order and however often (so also earlier scopes of the same object), on a kernel
  whose scope is closed, and then one more \<open>with dw:\<close> block. Whatever the installed
  packages do:
  \<^item> before the block the scope is closed, after it the scope is closed again, the closes
    in the trace are as many as the entered scopes, and at every point of the trace the
    scope is in one of the two states (no transition outside \<open>scope_step\<close> occurs);
  \<^item> if \<open>dw\<close> is unbound the block changes nothing, and if \<open>__enter__\<close> raises the
    scope is not entered: no open, no close;
  \<^item> if \<open>__enter__\<close> returns, the scope is open from there to the end of the body, and
    it closes exactly once, at \<open>__exit__\<close>, whether the body ended normally
    (\<open>r = None\<close>) or with an exception (\<open>r = Some e\<close>): one more open and one more
    close in the trace, and the object is the one the body left with \<open>__exit__\<close>
    applied to it once.
\<close>

theorem scope_opens_and_closes_once_per_use:
  assumes "scope_run Closed (trace w) = Some Closed"
  shows "let w1 = run_cells x cs w;
             w2 = run_cells x (cs @ [WithDW qs]) w
         in scope_run Closed (trace w1) = Some Closed
          \<and> scope_run Closed (trace w2) = Some Closed
          \<and> closes (trace w2) = opens (trace w2)
          \<and> (\<forall>n. scope_run Closed (take n (trace w2)) = Some Closed
                   \<or> scope_run Closed (take n (trace w2)) = Some Open)
          \<and> (case dw w1 of
                None \<Rightarrow> w2 = w1
              | Some d \<Rightarrow>
                  (case enter x (environ w1) d of
                     (Some e, d1) \<Rightarrow>
                       w2 = w1\<lparr>dw := Some d1, trace := trace w1 @ [EvEnter (Some e)]\<rparr>
                       \<and> opens (trace w2) = opens (trace w1)
                       \<and> closes (trace w2) = closes (trace w1)
                   | (None, d1) \<Rightarrow>
                       (case suite x (environ w1) qs d1 of
                          (r, d2, evs) \<Rightarrow>
                            w2 = w1\<lparr>dw := Some (snd (exit x (environ w1) r d2)),
                                     trace := trace w1 @ EvEnter None # evs @ [EvExit r]\<rparr>
                            \<and> scope_run Closed (trace w1 @ [EvEnter None]) = Some Open
                            \<and> scope_run Closed (trace w1 @ EvEnter None # evs) = Some Open
                            \<and> opens (trace w2) = opens (trace w1) + 1
                            \<and> closes (trace w2) = closes (trace w1) + 1)))"
proof -
  let ?w1 = "run_cells x cs w"
  let ?w2 = "run_cells x (cs @ [WithDW qs]) w"
  have w2: "?w2 = snd (with_dw x qs ?w1)"
    by (simp add: run_cells_append)
  have s1: "scope_run Closed (trace ?w1) = Some Closed"
    using assms by (rule run_cells_scoped)
  have s2: "scope_run Closed (trace ?w2) = Some Closed"
    using assms by (rule run_cells_scoped)
  have bal: "closes (trace ?w2) = opens (trace ?w2)"
    using scope_balanced [OF s2] by simp
  have two: "\<forall>n. scope_run Closed (take n (trace ?w2)) = Some Closed
                   \<or> scope_run Closed (take n (trace ?w2)) = Some Open"
    using scope_run_take [OF s2] by blast
  have use: "case dw ?w1 of
                None \<Rightarrow> ?w2 = ?w1
              | Some d \<Rightarrow>
                  (case enter x (environ ?w1) d of
                     (Some e, d1) \<Rightarrow>
                       ?w2 = ?w1\<lparr>dw := Some d1, trace := trace ?w1 @ [EvEnter (Some e)]\<rparr>
                       \<and> opens (trace ?w2) = opens (trace ?w1)
                       \<and> closes (trace ?w2) = closes (trace ?w1)
                   | (None, d1) \<Rightarrow>
                       (case suite x (environ ?w1) qs d1 of
                          (r, d2, evs) \<Rightarrow>
                            ?w2 = ?w1\<lparr>dw := Some (snd (exit x (environ ?w1) r d2)),
                                     trace := trace ?w1 @ EvEnter None # evs @ [EvExit r]\<rparr>
                            \<and> scope_run Closed (trace ?w1 @ [EvEnter None]) = Some Open
                            \<and> scope_run Closed (trace ?w1 @ EvEnter None # evs) = Some Open
                            \<and> opens (trace ?w2) = opens (trace ?w1) + 1
                            \<and> closes (trace ?w2) = closes (trace ?w1) + 1))"
  proof (cases "dw ?w1")
    case None
    then show ?thesis unfolding w2 by (simp add: with_dw_def)
  next
    case (Some d)
    show ?thesis
    proof (cases "enter x (environ ?w1) d")
      case (Pair r0 d1)
      show ?thesis
      proof (cases r0)
        case (Some e)
        then show ?thesis using \<open>dw ?w1 = Some d\<close> Pair unfolding w2
          by (simp add: with_dw_def opens_def closes_def)
      next
        case None
        obtain r d2 evs where su: "suite x (environ ?w1) qs d1 = (r, d2, evs)"
          by (cases "suite x (environ ?w1) qs d1") auto
        from suite_calls [OF su]
        have c: "scope_run Open (evs @ t) = scope_run Open t"
          and ne: "filter is_exit evs = []" and nn: "filter is_entered evs = []" for t
          by blast+
        from c [of "[]"] have c0: "scope_run Open evs = Some Open"
          by simp
        have e: "snd (with_dw x qs ?w1)
                   = ?w1\<lparr>dw := Some (snd (exit x (environ ?w1) r d2)),
                          trace := trace ?w1 @ EvEnter None # evs @ [EvExit r]\<rparr>"
          using \<open>dw ?w1 = Some d\<close> Pair None su by (intro with_dw_entered) simp_all
        show ?thesis using \<open>dw ?w1 = Some d\<close> Pair None su s1 c0 ne nn unfolding w2 e
          by (simp add: scope_run_append opens_def closes_def)
      qed
    qed
  qed
  show ?thesis using s1 s2 bal two use by (simp add: Let_def)
qed

theorem scope_opens_and_closes_once_per_use_witness:
  "scope_run Closed (trace fresh) = Some Closed
   \<and> trace (run_cells stub
              ([CreateEnvFile, LoadDotenv, InitDW xdmod_host, WithDW []]
                 @ [WithDW [Query ''get_raw_data'' [] [supremm]]]) fresh)
       = [EvLoadDotenv ''/home/user/xdmod-data.env'' True, EvNew xdmod_host,
          EvEnter None, EvExit None,
          EvEnter None, EvCall (Query ''get_raw_data'' [] [supremm]),
          EvExit (Some (External ''RuntimeError''))]
   \<and> dw (run_cells stub [CreateEnvFile, LoadDotenv, InitDW xdmod_host, WithDW []] fresh)
       = Some 1
   \<and> dw (run_cells stub
           ([CreateEnvFile, LoadDotenv, InitDW xdmod_host, WithDW []]
              @ [WithDW [Query ''get_raw_data'' [] [supremm]]]) fresh)
       = Some 2
   \<and> opens (trace (run_cells stub
                     ([CreateEnvFile, LoadDotenv, InitDW xdmod_host, WithDW []]
                        @ [WithDW [Query ''get_raw_data'' [] [supremm]]]) fresh)) = 2
   \<and> closes (trace (run_cells stub
                      ([CreateEnvFile, LoadDotenv, InitDW xdmod_host, WithDW []]
                         @ [WithDW [Query ''get_raw_data'' [] [supremm]]]) fresh)) = 2"
proof -
  have h: "scope_run Closed (trace fresh) = Some Closed"
    by (simp add: fresh_def)
  have w1: "run_cells stub [CreateEnvFile, LoadDotenv, InitDW xdmod_host, WithDW []] fresh
              = fresh\<lparr>fs := [''/home/user/xdmod-data.env'' \<mapsto> File ''XDMOD_API_TOKEN='' 384],
                       environ := [''XDMOD_API_TOKEN'' \<mapsto> []],
                       env_path_bound := True,
                       dw := Some 1,
                       trace := [EvLoadDotenv ''/home/user/xdmod-data.env'' True,
                                 EvNew xdmod_host, EvEnter None, EvExit None]\<rparr>"
    by (simp add: fresh_def stub_def create_env_file_def open_r_def open_w_def write_str_def
                  chmod_def load_env_def init_dw_def with_dw_def Let_def)
  have v: "enter stub env d = (None, d)" "exit stub env r d = (Inr False, Suc d)"
          "suite stub env [Query ''get_raw_data'' [] [supremm]] d
             = (Some (External ''RuntimeError''), d,
                [EvCall (Query ''get_raw_data'' [] [supremm])])"
    for env r and d :: nat
    by (simp_all add: stub_def)
  have w2: "run_cells stub
              ([CreateEnvFile, LoadDotenv, InitDW xdmod_host, WithDW []]
                 @ [WithDW [Query ''get_raw_data'' [] [supremm]]]) fresh
              = fresh\<lparr>fs := [''/home/user/xdmod-data.env'' \<mapsto> File ''XDMOD_API_TOKEN='' 384],
                       environ := [''XDMOD_API_TOKEN'' \<mapsto> []],
                       env_path_bound := True,
                       dw := Some 2,
                       trace := [EvLoadDotenv ''/home/user/xdmod-data.env'' True,
                                 EvNew xdmod_host, EvEnter None, EvExit None,
                                 EvEnter None, EvCall (Query ''get_raw_data'' [] [supremm]),
                                 EvExit (Some (External ''RuntimeError''))]\<rparr>"
    using scope_opens_and_closes_once_per_use
            [OF h, of stub "[CreateEnvFile, LoadDotenv, InitDW xdmod_host, WithDW []]"
               "[Query ''get_raw_data'' [] [supremm]]"]
    by (simp add: Let_def w1 v numeral_2_eq_2 del: run_cells.simps suite.simps)
  show ?thesis
    using h w1 w2 by (simp add: opens_def closes_def del: run_cells.simps)
qed

text \<open>
  C5. If the environment file is absent, the cell that creates it ends without an
  exception and leaves a file whose contents are exactly \<open>XDMOD_API_TOKEN=\<close> and whose
  mode is \<open>0o600\<close> (384). Run in the order of the notebooks (any number of local
  cells, then the creation cell, the \<open>load_dotenv\<close> cell and the constructor cell), the
  world in which the first \<open>with dw:\<close> block starts has that file, has the environment
  that \<open>load_dotenv\<close> made of that file with \<open>override=True\<close> (the old environment if
  \<open>load_dotenv\<close> raised), and a trace in which \<open>load_dotenv\<close> and the constructor are
  the only calls so far: in the trace of the whole notebook, whatever cells follow,
  \<open>load_dotenv\<close> comes before every \<open>__enter__\<close>.
\<close>

theorem env_file_created_and_loaded_before_session:
  assumes "fs w (xdmod_data_env_path w) = None"
  shows "let p = xdmod_data_env_path w;
             created = (fs w)(p \<mapsto> File ''XDMOD_API_TOKEN='' 384);
             w3 = run_cells x (replicate n Local @ [CreateEnvFile, LoadDotenv, InitDW url]) w
         in create_env_file w = (None, w\<lparr>fs := created\<rparr>)
          \<and> fs w3 = created
          \<and> environ w3 = (case load_dotenv x p True created (environ w) of
                            Inl e \<Rightarrow> environ w | Inr (b, env) \<Rightarrow> env)
          \<and> trace w3 = trace w @ [EvLoadDotenv p True, EvNew url]
          \<and> (\<exists>evs. trace (run_cells x
                             (replicate n Local @ [CreateEnvFile, LoadDotenv, InitDW url] @ rest) w)
                 = trace w @ EvLoadDotenv p True # EvNew url # evs)"
proof -
  let ?p = "xdmod_data_env_path w"
  let ?created = "(fs w)(?p \<mapsto> File ''XDMOD_API_TOKEN='' 384)"
  let ?first = "[CreateEnvFile, LoadDotenv, InitDW url]"
  let ?w3 = "run_cells x (replicate n Local @ ?first) w"
  have c: "create_env_file w = (None, w\<lparr>fs := ?created\<rparr>)"
    using assms by (rule create_absent)
  have b: "fs (w\<lparr>env_path_bound := True\<rparr>)
             (xdmod_data_env_path (w\<lparr>env_path_bound := True\<rparr>)) = None"
    using assms by simp
  have w3: "?w3 = run_cells x [LoadDotenv, InitDW url]
                    (w\<lparr>env_path_bound := True, fs := ?created\<rparr>)"
    by (simp add: run_cells_append run_cells_locals create_absent [OF b])
  have f: "fs ?w3 = ?created"
    unfolding w3 by (simp add: load_env_def init_dw_def Let_def split: sum.splits prod.splits)
  have e: "environ ?w3 = (case load_dotenv x ?p True ?created (environ w) of
                            Inl e \<Rightarrow> environ w | Inr (b, env) \<Rightarrow> env)"
    unfolding w3 by (simp add: load_env_def init_dw_def Let_def split: sum.splits prod.splits)
  have t: "trace ?w3 = trace w @ [EvLoadDotenv ?p True, EvNew url]"
    unfolding w3 by (simp add: load_env_def init_dw_def Let_def split: sum.splits prod.splits)
  obtain evs where "trace (run_cells x rest ?w3) = trace ?w3 @ evs"
    using run_cells_grows by blast
  then have r: "\<exists>evs. trace (run_cells x (replicate n Local @ ?first @ rest) w)
                 = trace w @ EvLoadDotenv ?p True # EvNew url # evs"
    using t by (simp add: run_cells_append)
  show ?thesis using c f e t r by (simp add: Let_def)
qed

theorem env_file_created_and_loaded_before_session_witness:
  "fs fresh (xdmod_data_env_path fresh) = None
   \<and> raw_data_notebook
       = replicate 4 Local @ [CreateEnvFile, LoadDotenv, InitDW xdmod_host]
           @ drop 7 raw_data_notebook
   \<and> create_env_file fresh
       = (None, fresh\<lparr>fs := [''/home/user/xdmod-data.env'' \<mapsto> File ''XDMOD_API_TOKEN='' 384]\<rparr>)
   \<and> (\<exists>evs. trace (run_cells stub raw_data_notebook fresh)
         = EvLoadDotenv ''/home/user/xdmod-data.env'' True # EvNew xdmod_host # evs)"
proof -
  have h: "fs fresh (xdmod_data_env_path fresh) = None"
    by (simp add: fresh_def)
  have s: "raw_data_notebook
             = replicate 4 Local @ [CreateEnvFile, LoadDotenv, InitDW xdmod_host]
                 @ drop 7 raw_data_notebook"
    by (simp add: raw_data_notebook_def eval_nat_numeral)
  have v: "xdmod_data_env_path fresh = ''/home/user/xdmod-data.env''"
          "fs fresh = Map.empty" "trace fresh = []"
    by (simp_all add: fresh_def)
  show ?thesis
    using env_file_created_and_loaded_before_session
            [OF h, of stub 4 xdmod_host "drop 7 raw_data_notebook"] h s v
    by (simp add: Let_def)
qed

text \<open>
  C10. If something already exists at the path of the environment file, the creation
  cell leaves the world as it found it: contents and mode of the file, and everything
  else, are unchanged (also when the read-only \<open>open\<close> raises something other than
  \<open>FileNotFoundError\<close>, which the cell does not catch).
\<close>

theorem existing_env_file_unchanged:
  assumes "fs w (xdmod_data_env_path w) = Some n"
  shows "snd (create_env_file w) = w"
  using assms by (rule create_present)

theorem existing_env_file_unchanged_witness:
  "fs (fresh\<lparr>fs := [''/home/user/xdmod-data.env'' \<mapsto> File ''XDMOD_API_TOKEN=abc'' 420]\<rparr>)
      (xdmod_data_env_path
         (fresh\<lparr>fs := [''/home/user/xdmod-data.env'' \<mapsto> File ''XDMOD_API_TOKEN=abc'' 420]\<rparr>))
     = Some (File ''XDMOD_API_TOKEN=abc'' 420)
   \<and> snd (create_env_file
            (fresh\<lparr>fs := [''/home/user/xdmod-data.env'' \<mapsto> File ''XDMOD_API_TOKEN=abc'' 420]\<rparr>))
       = fresh\<lparr>fs := [''/home/user/xdmod-data.env'' \<mapsto> File ''XDMOD_API_TOKEN=abc'' 420]\<rparr>"
proof -
  have h: "fs (fresh\<lparr>fs := [''/home/user/xdmod-data.env'' \<mapsto> File ''XDMOD_API_TOKEN=abc'' 420]\<rparr>)
             (xdmod_data_env_path
                (fresh\<lparr>fs := [''/home/user/xdmod-data.env'' \<mapsto> File ''XDMOD_API_TOKEN=abc'' 420]\<rparr>))
           = Some (File ''XDMOD_API_TOKEN=abc'' 420)"
    by (simp add: fresh_def)
  show ?thesis
    using existing_env_file_unchanged [OF h] h by simp
qed

end
